theory Spec2Isabelle
  imports Main "HOL-Library.Sublist"
begin

section \<open>Errors and remote responses\<close>

text \<open>
  Every exception the program can raise is a value. \<open>KeyError\<close>, \<open>IndexError\<close> and
  \<open>TypeError\<close> come from Python subscripting; \<open>ServiceError\<close> is a failing call to the
  remote agent service; \<open>BackendUnavailable\<close> is a failing model backend during an agent
  turn; \<open>ValueError\<close> is an argument that a library refuses: a group chat built
  without participants, a ticker built from an empty symbol.
\<close>

datatype error =
    KeyError string
  | IndexError
  | TypeError
  | ServiceError
  | BackendUnavailable
  | ValueError

text \<open>
  The object returned by \<open>list_messages\<close> is read by subscripting only, so it is modelled
  as a JSON-like value. A dictionary is an association list; the first binding of a key
  is the one a lookup finds.
\<close>

datatype json =
    JNull
  | JStr string
  | JInt int
  | JList "json list"
  | JDict "(string \<times> json) list"

text \<open>\<open>obj[key]\<close> with a string key.\<close>

fun subscript_key :: "json \<Rightarrow> string \<Rightarrow> error + json" where
  "subscript_key (JDict kvs) k =
     (case map_of kvs k of None \<Rightarrow> Inl (KeyError k) | Some v \<Rightarrow> Inr v)"
| "subscript_key _ k = Inl TypeError"

text \<open>\<open>obj[0]\<close>: the first element of a list, the first character of a string.\<close>

fun subscript_first :: "json \<Rightarrow> error + json" where
  "subscript_first (JList []) = Inl IndexError"
| "subscript_first (JList (x # xs)) = Inr x"
| "subscript_first (JStr []) = Inl IndexError"
| "subscript_first (JStr (c # cs)) = Inr (JStr [c])"
| "subscript_first (JDict kvs) = Inl (KeyError ''0'')"
| "subscript_first _ = Inl TypeError"

definition bind_err :: "error + 'a \<Rightarrow> ('a \<Rightarrow> error + 'b) \<Rightarrow> error + 'b" where
  "bind_err r f = (case r of Inl e \<Rightarrow> Inl e | Inr v \<Rightarrow> f v)"

text \<open>The expression \<open>messages["data"][0]["content"][0]["text"]["value"]\<close>.\<close>

definition first_text_value :: "json \<Rightarrow> error + json" where
  "first_text_value messages =
     bind_err (subscript_key messages ''data'') (\<lambda>d.
     bind_err (subscript_first d) (\<lambda>m.
     bind_err (subscript_key m ''content'') (\<lambda>c.
     bind_err (subscript_first c) (\<lambda>p.
     bind_err (subscript_key p ''text'') (\<lambda>t.
       subscript_key t ''value'')))))"

section \<open>The remote agent service\<close>

text \<open>
  The tools talk to \<open>project_client.agents\<close>. Its state is the remote assistant agents
  and threads that exist, the messages of the threads in the order they were added
  (thread, role, content parts), and the lines printed so far. Identifiers are handed
  out from a counter.
\<close>

record world =
  stdout :: "string list"
  agents :: "nat list"
  threads :: "nat list"
  posted :: "(nat \<times> string \<times> json) list"
  next_id :: nat

datatype remote_op =
    CreateAgent
  | CreateThread
  | CreateMessage
  | CreateAndProcessRun
  | ListMessages
  | DeleteAgent

text \<open>
  What the service does is not decided by this program: \<open>fails\<close> says which calls
  raise, and \<open>answer\<close> gives the content parts of the message that the remote agent adds
  to the thread during a run, \<open>None\<close> when the run ends without adding a message.
\<close>

record service =
  fails :: "remote_op \<Rightarrow> bool"
  answer :: "nat \<Rightarrow> nat \<Rightarrow> json option"

definition print :: "string \<Rightarrow> world \<Rightarrow> world" where
  "print line w = w\<lparr>stdout := stdout w @ [line]\<rparr>"

definition create_agent :: "service \<Rightarrow> world \<Rightarrow> (error + nat) \<times> world" where
  "create_agent svc w =
     (if fails svc CreateAgent then (Inl ServiceError, w)
      else (Inr (next_id w), w\<lparr>agents := agents w @ [next_id w], next_id := Suc (next_id w)\<rparr>))"

definition create_thread :: "service \<Rightarrow> world \<Rightarrow> (error + nat) \<times> world" where
  "create_thread svc w =
     (if fails svc CreateThread then (Inl ServiceError, w)
      else (Inr (next_id w), w\<lparr>threads := threads w @ [next_id w], next_id := Suc (next_id w)\<rparr>))"

text \<open>A message content made of one text part.\<close>

definition text_content :: "string \<Rightarrow> json" where
  "text_content s =
     JList [JDict [(''type'', JStr ''text''),
                   (''text'', JDict [(''value'', JStr s), (''annotations'', JList [])])]]"

definition create_message ::
  "service \<Rightarrow> nat \<Rightarrow> string \<Rightarrow> string \<Rightarrow> world \<Rightarrow> (error + unit) \<times> world" where
  "create_message svc thread_id role text w =
     (if fails svc CreateMessage then (Inl ServiceError, w)
      else (Inr (), w\<lparr>posted := posted w @ [(thread_id, role, text_content text)]\<rparr>))"

definition create_and_process_run ::
  "service \<Rightarrow> nat \<Rightarrow> nat \<Rightarrow> world \<Rightarrow> (error + unit) \<times> world" where
  "create_and_process_run svc thread_id assistant_id w =
     (if fails svc CreateAndProcessRun then (Inl ServiceError, w)
      else (case answer svc thread_id assistant_id of
              None \<Rightarrow> (Inr (), w)
            | Some parts \<Rightarrow>
                (Inr (), w\<lparr>posted := posted w @ [(thread_id, ''assistant'', parts)]\<rparr>)))"

fun message_json :: "nat \<times> string \<times> json \<Rightarrow> json" where
  "message_json (thread_id, role, parts) =
     JDict [(''thread_id'', JInt (int thread_id)), (''role'', JStr role), (''content'', parts)]"

text \<open>The listing of a thread holds its messages, the newest first.\<close>

definition list_messages :: "service \<Rightarrow> nat \<Rightarrow> world \<Rightarrow> (error + json) \<times> world" where
  "list_messages svc thread_id w =
     (if fails svc ListMessages then (Inl ServiceError, w)
      else (Inr (JDict [(''object'', JStr ''list''),
                        (''data'', JList (map message_json
                           (rev (filter (\<lambda>m. fst m = thread_id) (posted w)))))]), w))"

definition delete_agent :: "service \<Rightarrow> nat \<Rightarrow> world \<Rightarrow> (error + unit) \<times> world" where
  "delete_agent svc agent_id w =
     (if fails svc DeleteAgent then (Inl ServiceError, w)
      else (Inr (), w\<lparr>agents := removeAll agent_id (agents w)\<rparr>))"

section \<open>Tool definitions\<close>

text \<open>
  The body shared, line for line, by \<open>stock_price_trends_tool\<close> and
  \<open>news_analysis_tool\<close>: they differ in the printed line and in the text they post to
  the thread (and in the name and instructions of the remote agent, which the model of
  the service does not look at). An exception raised by any call leaves the function
  at that point, with the world as it is then.
\<close>

definition bing_tool ::
  "string \<Rightarrow> string \<Rightarrow> service \<Rightarrow> world \<Rightarrow> (error + json) \<times> world" where
  "bing_tool banner request svc w0 =
     (let w1 = print banner w0 in
      case create_agent svc w1 of
        (Inl e, w2) \<Rightarrow> (Inl e, w2)
      | (Inr agent_id, w2) \<Rightarrow>
      (case create_thread svc w2 of
        (Inl e, w3) \<Rightarrow> (Inl e, w3)
      | (Inr thread_id, w3) \<Rightarrow>
      (case create_message svc thread_id ''user'' request w3 of
        (Inl e, w4) \<Rightarrow> (Inl e, w4)
      | (Inr _, w4) \<Rightarrow>
      (case create_and_process_run svc thread_id agent_id w4 of
        (Inl e, w5) \<Rightarrow> (Inl e, w5)
      | (Inr _, w5) \<Rightarrow>
      (case list_messages svc thread_id w5 of
        (Inl e, w6) \<Rightarrow> (Inl e, w6)
      | (Inr messages, w6) \<Rightarrow>
      (case delete_agent svc agent_id w6 of
        (Inl e, w7) \<Rightarrow> (Inl e, w7)
      | (Inr _, w7) \<Rightarrow> (first_text_value messages, w7)))))))"

definition stock_price_trends_tool ::
  "service \<Rightarrow> string \<Rightarrow> world \<Rightarrow> (error + json) \<times> world" where
  "stock_price_trends_tool svc stock_name =
     bing_tool
       (''[stock_price_trends_tool] Fetching trends for '' @ stock_name @ ''...'')
       (''Get stock price trends for '' @ stock_name @ ''.'')
       svc"

definition news_analysis_tool ::
  "service \<Rightarrow> string \<Rightarrow> world \<Rightarrow> (error + json) \<times> world" where
  "news_analysis_tool svc stock_name =
     bing_tool
       (''[news_analysis_tool] Fetching news for '' @ stock_name @ ''...'')
       (''Find the latest stock news about '' @ stock_name @ ''.'')
       svc"

text \<open>
  \<open>realtime_stock_price_tool\<close>. Neither \<open>yf.Ticker(stock_name)\<close> nor
  \<open>ticker.history(period="1d", interval="1m")\<close> is guarded, so either may raise and the
  exception leaves the tool. A returned frame is the list of its rows, each an index
  timestamp with a close price; \<open>data.empty\<close> is the empty list. The renderings
  \<open>strftime("%Y-%m-%d %H:%M:%S")\<close> and \<open>:.2f\<close> belong to the Python library and are
  parameters. The rupee sign is its three UTF-8 bytes.
\<close>

record ('k, 't, 'p) market =
  ticker :: "string \<Rightarrow> error + 'k"
  history :: "'k \<Rightarrow> error + ('t \<times> 'p) list"
  strftime :: "'t \<Rightarrow> string"
  fmt2 :: "'p \<Rightarrow> string"

definition realtime_stock_price_tool ::
  "('k, 't, 'p) market \<Rightarrow> string \<Rightarrow> world \<Rightarrow> (error + string) \<times> world" where
  "realtime_stock_price_tool mkt stock_name w0 =
     (let w1 = print (''[realtime_stock_price_tool] Getting real-time price for ''
                      @ stock_name @ ''...'') w0
      in case ticker mkt stock_name of
           Inl e \<Rightarrow> (Inl e, w1)
         | Inr tk \<Rightarrow>
        (case history mkt tk of
           Inl e \<Rightarrow> (Inl e, w1)
         | Inr data \<Rightarrow>
             if data = [] then
               (Inr (''Could not fetch real-time price for '' @ stock_name @ ''.''), w1)
             else
               (let current_price = snd (last data);
                    timestamp = strftime mkt (fst (last data))
                in (Inr (''As of '' @ timestamp @ '', the real-time price of '' @ stock_name
                         @ '' is '' @ [CHR 0xE2, CHR 0x82, CHR 0xB9]
                         @ fmt2 mkt current_price @ ''.''), w1))))"

section \<open>Assistant agents\<close>

datatype tool = StockPriceTrendsTool | RealtimeStockPriceTool | NewsAnalysisTool

record agent =
  name :: string
  tools :: "tool list"
  system_message :: string

definition stock_trends_agent_assistant :: agent where
  "stock_trends_agent_assistant =
     \<lparr>name = ''stock_trends_agent'',
      tools = [StockPriceTrendsTool, RealtimeStockPriceTool],
      system_message =
        ''You are the Stock Trends Agent. You analyze both historical and real-time data ''
        @ ''to summarize current stock movement patterns.''\<rparr>"

definition news_agent_assistant :: agent where
  "news_agent_assistant =
     \<lparr>name = ''news_agent'',
      tools = [NewsAnalysisTool],
      system_message =
        ''You are the News Agent. Retrieve and summarize the latest relevant news for the stock.''\<rparr>"

definition sentiment_agent_assistant :: agent where
  "sentiment_agent_assistant =
     \<lparr>name = ''sentiment_agent'',
      tools = [],
      system_message =
        ''You are the Sentiment Agent. Summarize the overall market mood ''
        @ ''and investor confidence for the given stock.''\<rparr>"

definition decision_agent_assistant :: agent where
  "decision_agent_assistant =
     \<lparr>name = ''decision_agent'',
      tools = [],
      system_message =
        ''You are the Decision Agent. Combine insights from trends, real-time prices, and news ''
        @ ''to decide whether to INVEST or NOT INVEST. End with 'Decision Made'.''\<rparr>"

section \<open>Termination conditions\<close>

record message =
  sender :: string
  content :: string
  turn_index :: nat

text \<open>
  The source builds its condition from \<open>TextMentionTermination\<close>,
  \<open>MaxMessageTermination\<close> and the operator \<open>|\<close>; the conjunction is the other
  combinator of the condition trees.
\<close>

datatype condition =
    TextMentionTermination string
  | MaxMessageTermination nat
  | OrTermination condition condition
  | AndTermination condition condition

text \<open>
  Modelled from the spec: the evaluator of a condition tree lives in the group chat
  library, which is not part of the sources. A text mention holds iff some message
  content contains the marker phrase, a message cap holds iff the transcript has at
  least that many messages, and both are found by scanning the transcript again at
  each evaluation.
\<close>

fun should_stop :: "condition \<Rightarrow> message list \<Rightarrow> bool" where
  "should_stop (TextMentionTermination marker) t = list_ex (\<lambda>m. sublist marker (content m)) t"
| "should_stop (MaxMessageTermination bound) t = (bound \<le> length t)"
| "should_stop (OrTermination c1 c2) t = (should_stop c1 t \<or> should_stop c2 t)"
| "should_stop (AndTermination c1 c2) t = (should_stop c1 t \<and> should_stop c2 t)"

definition termination_condition :: condition where
  "termination_condition = OrTermination (TextMentionTermination ''Decision Made'') (MaxMessageTermination 15)"

section \<open>Round robin group chat\<close>

record team =
  participants :: "agent list"
  termination_of :: condition

definition investment_team :: team where
  "investment_team =
     \<lparr>participants =
        [stock_trends_agent_assistant,
         news_agent_assistant,
         sentiment_agent_assistant,
         decision_agent_assistant],
      termination_of = termination_condition\<rparr>"

text \<open>
  An agent's turn is decided by the model backend and the tools it calls: given the
  agent, the task and the transcript so far it yields the text of one reply, or fails.
\<close>

type_synonym backend = "agent \<Rightarrow> string \<Rightarrow> message list \<Rightarrow> error + string"

datatype run_result =
    Terminated "message list"
  | RunFailed error "message list"

fun transcript_of :: "run_result \<Rightarrow> message list" where
  "transcript_of (Terminated t) = t"
| "transcript_of (RunFailed e t) = t"

text \<open>
  Modelled from the spec: the scheduler behind \<open>RoundRobinGroupChat.run_stream\<close> is
  library code that is not part of the sources. While running it gives the turn to
  the next agent in fixed cyclic order, appends the one message of that turn, and
  then evaluates the termination condition; a true condition ends the run with the
  full transcript, a failing turn aborts it. The position of the next speaker is
  kept beside the transcript and wraps at the end of the roster. The loop has no
  bound of its own, so it is given fuel and \<open>None\<close> is a run that has not stopped yet.
\<close>

fun run_loop ::
  "nat \<Rightarrow> agent list \<Rightarrow> condition \<Rightarrow> (agent \<Rightarrow> message list \<Rightarrow> error + string)
   \<Rightarrow> message list \<Rightarrow> nat \<Rightarrow> run_result option" where
  "run_loop 0 roster tc take_turn t i = None"
| "run_loop (Suc fuel) roster tc take_turn t i =
     (case take_turn (roster ! i) t of
        Inl e \<Rightarrow> Some (RunFailed e t)
      | Inr reply \<Rightarrow>
          (let t' = t @ [\<lparr>sender = name (roster ! i), content = reply, turn_index = length t\<rparr>];
               i' = Suc i mod length roster
           in if should_stop tc t' then Some (Terminated t')
              else run_loop fuel roster tc take_turn t' i'))"

text \<open>
  Modelled from the spec: starting a run seeds an empty transcript and begins with
  the first agent of the roster. A team without participants is refused.
\<close>

definition run_stream :: "nat \<Rightarrow> team \<Rightarrow> string \<Rightarrow> backend \<Rightarrow> run_result option" where
  "run_stream fuel tm task be =
     (if participants tm = [] then Some (RunFailed ValueError [])
      else run_loop fuel (participants tm) (termination_of tm) (\<lambda>a. be a task) [] 0)"

section \<open>Main loop\<close>

text \<open>Decimal rendering of the interval in the waiting line.\<close>

fun str_nat :: "nat \<Rightarrow> string" where
  "str_nat n = (if n < 10 then [char_of (48 + n)]
                else str_nat (n div 10) @ [char_of (48 + n mod 10)])"

definition str_int :: "int \<Rightarrow> string" where
  "str_int i = (if i < 0 then ''-'' @ str_nat (nat (- i)) else str_nat (nat i))"

text \<open>
  What the loop does to the outside: lines printed, transcripts streamed to the
  console, and sleeps. The model backend and the clock are external and may answer
  differently in each cycle, so both are indexed by the number of completed cycles.
\<close>

datatype event =
    Printed string
  | Rendered "message list"
  | Slept int

record driver =
  events :: "event list"
  cycle :: nat

record env =
  now :: "nat \<Rightarrow> string"
  model :: "nat \<Rightarrow> backend"

definition emit :: "event \<Rightarrow> driver \<Rightarrow> driver" where
  "emit ev d = d\<lparr>events := events d @ [ev]\<rparr>"

datatype 's outcome =
    Returned 's
  | Raised error 's
  | StillRunning 's

text \<open>
  A Python \<open>while\<close> loop whose body may raise. An exception leaves the loop, since
  nothing catches it; a false condition returns; \<open>StillRunning\<close> is the loop observed
  after the given number of iterations, or inside a body that has not finished.
\<close>

fun py_while ::
  "('s \<Rightarrow> bool) \<Rightarrow> ('s \<Rightarrow> ((error + unit) \<times> 's) option) \<Rightarrow> nat \<Rightarrow> 's \<Rightarrow> 's outcome" where
  "py_while cond body 0 s = StillRunning s"
| "py_while cond body (Suc n) s =
     (if cond s then
        (case body s of
           None \<Rightarrow> StillRunning s
         | Some (Inl e, s') \<Rightarrow> Raised e s'
         | Some (Inr _, s') \<Rightarrow> py_while cond body n s')
      else Returned s)"

definition task_for :: "string \<Rightarrow> string" where
  "task_for stock_name =
     ''Analyze trends, real-time prices, and latest news for '' @ stock_name @ ''. ''
     @ ''Then make an investment decision.''"

text \<open>
  One pass through the body of the loop in \<open>run_realtime_analysis\<close>. \<open>fuel\<close> bounds the
  turns of the conversation run of this cycle.
\<close>

definition cycle_body ::
  "env \<Rightarrow> nat \<Rightarrow> string \<Rightarrow> int \<Rightarrow> driver \<Rightarrow> ((error + unit) \<times> driver) option" where
  "cycle_body ev fuel stock_name interval d =
     (let d1 = emit (Printed ([CHR 0x0A] @ ''['' @ now ev (cycle d)
                              @ ''] Running real-time round-robin analysis...''
                              @ [CHR 0x0A])) d
      in case run_stream fuel investment_team (task_for stock_name) (model ev (cycle d)) of
           None \<Rightarrow> None
         | Some (RunFailed e t) \<Rightarrow> Some (Inl e, emit (Rendered t) d1)
         | Some (Terminated t) \<Rightarrow>
             (let d2 = emit (Rendered t) d1;
                  d3 = emit (Printed ([CHR 0x0A] @ ''Waiting '' @ str_int interval
                                      @ '' seconds before next update...''
                                      @ [CHR 0x0A])) d2;
                  d4 = emit (Slept interval) d3
              in Some (Inr (), d4\<lparr>cycle := Suc (cycle d4)\<rparr>)))"

definition run_realtime_analysis ::
  "env \<Rightarrow> nat \<Rightarrow> string \<Rightarrow> int \<Rightarrow> nat \<Rightarrow> driver outcome" where
  "run_realtime_analysis ev fuel stock_name interval n =
     py_while (\<lambda>d. True) (cycle_body ev fuel stock_name interval) n \<lparr>events = [], cycle = 0\<rparr>"

text \<open>The default value of the parameter \<open>interval\<close> of \<open>run_realtime_analysis\<close>.\<close>

definition default_interval :: int where
  "default_interval = 60"

definition main :: "env \<Rightarrow> nat \<Rightarrow> nat \<Rightarrow> driver outcome" where
  "main ev fuel n = run_realtime_analysis ev fuel ''ICICIBANK.NS'' 60 n"

text \<open>
  The events of a cycle whose conversation run terminates, in the order of the loop
  body: the announcement, the transcript of the run, the waiting line, the sleep.
\<close>

definition cycle_events :: "env \<Rightarrow> nat \<Rightarrow> string \<Rightarrow> int \<Rightarrow> nat \<Rightarrow> event list" where
  "cycle_events ev fuel stock_name interval c =
     [Printed ([CHR 0x0A] @ ''['' @ now ev c
               @ ''] Running real-time round-robin analysis...'' @ [CHR 0x0A]),
      Rendered (transcript_of
        (the (run_stream fuel investment_team (task_for stock_name) (model ev c)))),
      Printed ([CHR 0x0A] @ ''Waiting '' @ str_int interval
               @ '' seconds before next update...'' @ [CHR 0x0A]),
      Slept interval]"

fun sleeps_of :: "event list \<Rightarrow> int list" where
  "sleeps_of [] = []"
| "sleeps_of (Slept i # es) = i # sleeps_of es"
| "sleeps_of (e # es) = sleeps_of es"

fun rendered_of :: "event list \<Rightarrow> message list list" where
  "rendered_of [] = []"
| "rendered_of (Rendered t # es) = t # rendered_of es"
| "rendered_of (e # es) = rendered_of es"

section \<open>Concrete inputs\<close>

text \<open>Inputs at which the theorems below are evaluated.\<close>

definition world0 :: world where
  "world0 = \<lparr>stdout = [], agents = [], threads = [], posted = [], next_id = 0\<rparr>"

text \<open>A service whose remote agent answers with one text message.\<close>

definition answering_service :: service where
  "answering_service =
     \<lparr>fails = (\<lambda>op. False),
      answer = (\<lambda>thread_id assistant_id. Some (text_content ''Shares rose 2% this week.''))\<rparr>"

text \<open>A service whose remote run ends without any message: it found no data.\<close>

definition silent_service :: service where
  "silent_service =
     \<lparr>fails = (\<lambda>op. False),
      answer = (\<lambda>thread_id assistant_id. None)\<rparr>"

text \<open>A service whose run of the remote agent raises.\<close>

definition outage_service :: service where
  "outage_service =
     \<lparr>fails = (\<lambda>op. op = CreateAndProcessRun),
      answer = (\<lambda>thread_id assistant_id. None)\<rparr>"

text \<open>
  A market that refuses the empty symbol, has two rows for one symbol and an empty
  frame for every other, with timestamps and prices already rendered.
\<close>

definition sample_market :: "(string, string, string) market" where
  "sample_market =
     \<lparr>ticker = (\<lambda>s. if s = [] then Inl ValueError else Inr s),
      history = (\<lambda>k. Inr (if k = ''ICICIBANK.NS''
                      then [(''2025-01-02 15:28:00'', ''1277.90''), (''2025-01-02 15:29:00'', ''1278.45'')]
                      else [])),
      strftime = (\<lambda>ts. ts),
      fmt2 = (\<lambda>p. p)\<rparr>"

text \<open>Backends: one that never decides, one that decides, one whose news agent fails.\<close>

definition quiet_backend :: backend where
  "quiet_backend a task t = Inr ''HOLD''"

definition deciding_backend :: backend where
  "deciding_backend a task t =
     (if name a = ''decision_agent'' then Inr ''INVEST. Decision Made.'' else Inr ''noted'')"

definition decided_transcript :: "message list" where
  "decided_transcript =
     [\<lparr>sender = ''stock_trends_agent'', content = ''noted'', turn_index = 0\<rparr>,
      \<lparr>sender = ''news_agent'', content = ''noted'', turn_index = 1\<rparr>,
      \<lparr>sender = ''sentiment_agent'', content = ''noted'', turn_index = 2\<rparr>,
      \<lparr>sender = ''decision_agent'', content = ''INVEST. Decision Made.'', turn_index = 3\<rparr>]"

definition outage_backend :: backend where
  "outage_backend a task t =
     (if name a = ''news_agent'' then Inl BackendUnavailable else Inr ''noted'')"

definition steady_env :: env where
  "steady_env = \<lparr>now = (\<lambda>c. ''09:15:00''), model = (\<lambda>c. deciding_backend)\<rparr>"

definition outage_env :: env where
  "outage_env = \<lparr>now = (\<lambda>c. ''09:15:00''), model = (\<lambda>c. outage_backend)\<rparr>"

definition late_outage_env :: env where
  "late_outage_env =
     \<lparr>now = (\<lambda>c. ''09:15:00''),
      model = (\<lambda>c. if c = 1 then outage_backend else deciding_backend)\<rparr>"

fun is_raised :: "'s outcome \<Rightarrow> bool" where
  "is_raised (Raised e s) = True"
| "is_raised _ = False"

fun state_of :: "'s outcome \<Rightarrow> 's" where
  "state_of (Returned s) = s"
| "state_of (Raised e s) = s"
| "state_of (StillRunning s) = s"

section \<open>The data tools\<close>

text \<open>
  C10, as stated, fails: not every symbol gets a string back. The fetch of the
  history is unguarded, and where it raises, as the ticker library does for the empty
  symbol, the tool raises too and returns neither the sentinel nor the message.
\<close>

theorem realtime_tool_raises_on_refused_symbol:
  "fst (realtime_stock_price_tool sample_market [] world0) = Inl ValueError"
  by code_simp

text \<open>
  C10, amended. For every symbol whose history fetch returns a frame,
  \<open>realtime_stock_price_tool\<close> returns the sentinel
  "Could not fetch real-time price for {stock_name}." exactly when that frame is
  empty, and otherwise the message built from the timestamp of the last row and the
  rendering of its close price to two decimals; in both cases the returned string is
  not empty. When building the ticker or fetching the history raises, that exception
  leaves the tool.
\<close>

theorem realtime_stock_price_tool_result:
  "(ticker mkt s = Inr k \<longrightarrow> history mkt k = Inr data \<longrightarrow>
      (fst (realtime_stock_price_tool mkt s w)
         = Inr (''Could not fetch real-time price for '' @ s @ ''.'') \<longleftrightarrow> data = [])
      \<and> (data \<noteq> [] \<longrightarrow>
           fst (realtime_stock_price_tool mkt s w) =
             Inr (''As of '' @ strftime mkt (fst (last data)) @ '', the real-time price of ''
                  @ s @ '' is '' @ [CHR 0xE2, CHR 0x82, CHR 0xB9]
                  @ fmt2 mkt (snd (last data)) @ ''.''))
      \<and> (\<exists>r. fst (realtime_stock_price_tool mkt s w) = Inr r \<and> r \<noteq> []))
   \<and> (ticker mkt s = Inl e \<longrightarrow> fst (realtime_stock_price_tool mkt s w) = Inl e)
   \<and> (ticker mkt s = Inr k \<longrightarrow> history mkt k = Inl e \<longrightarrow>
        fst (realtime_stock_price_tool mkt s w) = Inl e)"
  by (simp add: realtime_stock_price_tool_def Let_def)

theorem realtime_stock_price_tool_result_witness:
  "ticker sample_market ''NOPE'' = Inr ''NOPE''
   \<and> history sample_market ''NOPE'' = Inr []
   \<and> fst (realtime_stock_price_tool sample_market ''NOPE'' world0)
       = Inr ''Could not fetch real-time price for NOPE.''
   \<and> ticker sample_market ''ICICIBANK.NS'' = Inr ''ICICIBANK.NS''
   \<and> history sample_market ''ICICIBANK.NS''
       = Inr [(''2025-01-02 15:28:00'', ''1277.90''), (''2025-01-02 15:29:00'', ''1278.45'')]
   \<and> fst (realtime_stock_price_tool sample_market ''ICICIBANK.NS'' world0)
       = Inr (''As of 2025-01-02 15:29:00, the real-time price of ICICIBANK.NS is ''
              @ [CHR 0xE2, CHR 0x82, CHR 0xB9] @ ''1278.45.'')
   \<and> ticker sample_market [] = Inl ValueError
   \<and> fst (realtime_stock_price_tool sample_market [] world0) = Inl ValueError"
proof -
  let ?rows = "[(''2025-01-02 15:28:00'', ''1277.90''), (''2025-01-02 15:29:00'', ''1278.45'')]"
  have t1: "ticker sample_market ''NOPE'' = Inr ''NOPE''"
    and h1: "history sample_market ''NOPE'' = Inr []"
    and t2: "ticker sample_market ''ICICIBANK.NS'' = Inr ''ICICIBANK.NS''"
    and h2: "history sample_market ''ICICIBANK.NS'' = Inr ?rows"
    and t3: "ticker sample_market [] = Inl ValueError"
    by (simp_all add: sample_market_def)
  from t1 h1 realtime_stock_price_tool_result
    [of sample_market "''NOPE''" "''NOPE''" "[]" world0]
  have a: "fst (realtime_stock_price_tool sample_market ''NOPE'' world0)
       = Inr (''Could not fetch real-time price for '' @ ''NOPE'' @ ''.'')"
    by blast
  have ne: "?rows \<noteq> []" by simp
  from t2 h2 ne realtime_stock_price_tool_result
    [of sample_market "''ICICIBANK.NS''" "''ICICIBANK.NS''" ?rows world0]
  have b: "fst (realtime_stock_price_tool sample_market ''ICICIBANK.NS'' world0) =
             Inr (''As of '' @ strftime sample_market (fst (last ?rows))
                  @ '', the real-time price of '' @ ''ICICIBANK.NS'' @ '' is ''
                  @ [CHR 0xE2, CHR 0x82, CHR 0xB9]
                  @ fmt2 sample_market (snd (last ?rows)) @ ''.'')"
    by blast
  from t3 realtime_stock_price_tool_result
    [of sample_market "[]" _ _ world0 ValueError]
  have c: "fst (realtime_stock_price_tool sample_market [] world0) = Inl ValueError"
    by blast
  from a b c t1 h1 t2 h2 t3 show ?thesis
    by (simp add: sample_market_def)
qed

text \<open>
  C4 does not hold of the code. The trend and news adapters have no sentinel. When
  the remote run finds nothing and adds no message to the thread, the newest message
  of the listing is the request the tool itself posted, and the tool returns that text
  as if it were the summary: nothing in the returned string says that no data was
  found. No exception is raised on this path.
\<close>

theorem bing_tools_return_their_request:
  "fst (stock_price_trends_tool silent_service ''ICICIBANK.NS'' world0)
     = Inr (JStr ''Get stock price trends for ICICIBANK.NS.'')
   \<and> fst (news_analysis_tool silent_service ''ICICIBANK.NS'' world0)
     = Inr (JStr ''Find the latest stock news about ICICIBANK.NS.'')
   \<and> fst (stock_price_trends_tool answering_service ''ICICIBANK.NS'' world0)
     = Inr (JStr ''Shares rose 2% this week.'')"
  by code_simp

text \<open>
  C7 does not hold of the code. Both Bing-grounded tools call \<open>delete_agent\<close> only
  after every earlier call has succeeded, and nothing ever deletes the thread. After a
  call in which every remote operation succeeds the thread is still there; after a call
  whose remote run fails, the agent and the thread are both still there.
\<close>

theorem bing_tools_leave_remote_resources:
  "agents (snd (stock_price_trends_tool answering_service ''ICICIBANK.NS'' world0)) = []
   \<and> threads (snd (stock_price_trends_tool answering_service ''ICICIBANK.NS'' world0)) = [1]
   \<and> fst (news_analysis_tool outage_service ''ICICIBANK.NS'' world0) = Inl ServiceError
   \<and> agents (snd (news_analysis_tool outage_service ''ICICIBANK.NS'' world0)) = [0]
   \<and> threads (snd (news_analysis_tool outage_service ''ICICIBANK.NS'' world0)) = [1]"
  by code_simp

section \<open>Termination conditions over a growing transcript\<close>

lemma should_stop_deployed:
  "should_stop termination_condition t \<longleftrightarrow>
     (\<exists>m\<in>set t. sublist ''Decision Made'' (content m)) \<or> 15 \<le> length t"
  by (simp add: termination_condition_def list_ex_iff)

lemma HOLD_is_quiet: "\<not> sublist ''Decision Made'' ''HOLD''"
  by code_simp

text \<open>
  C3. For every condition tree built from text mentions and message caps, among them
  the deployed "Decision Made" or cap of 15, \<open>should_stop\<close> is monotonic: once it holds
  of a transcript it holds of every extension of that transcript by further messages.
\<close>

theorem should_stop_monotonic:
  "should_stop tc t \<Longrightarrow> should_stop tc (t @ ext)"
  by (induction tc) (auto simp: list_ex_iff)

theorem should_stop_monotonic_witness:
  "should_stop termination_condition
     [\<lparr>sender = ''decision_agent'', content = ''INVEST. Decision Made.'', turn_index = 0\<rparr>]
   \<and> should_stop termination_condition
     ([\<lparr>sender = ''decision_agent'', content = ''INVEST. Decision Made.'', turn_index = 0\<rparr>]
      @ [\<lparr>sender = ''stock_trends_agent'', content = ''noted'', turn_index = 1\<rparr>])"
proof -
  have h: "should_stop termination_condition
     [\<lparr>sender = ''decision_agent'', content = ''INVEST. Decision Made.'', turn_index = 0\<rparr>]"
    by code_simp
  from h should_stop_monotonic [OF h] show ?thesis
    by blast
qed

section \<open>The round robin run\<close>

text \<open>The cap of the deployed condition ends every run within fifteen turns.\<close>

lemma run_loop_capped:
  "length t < 15 \<Longrightarrow> 15 \<le> length t + fuel \<Longrightarrow>
   \<exists>r. run_loop fuel roster termination_condition tt t i = Some r"
proof (induction fuel arbitrary: t i)
  case 0
  then show ?case by simp
next
  case (Suc fuel)
  show ?case
  proof (cases "tt (roster ! i) t")
    case (Inl e)
    then show ?thesis by simp
  next
    case (Inr reply)
    let ?t' = "t @ [\<lparr>sender = name (roster ! i), content = reply, turn_index = length t\<rparr>]"
    show ?thesis
    proof (cases "should_stop termination_condition ?t'")
      case True
      with Inr show ?thesis by (simp add: Let_def)
    next
      case False
      then have lt: "length ?t' < 15"
        unfolding should_stop_deployed by (meson not_le)
      have le: "15 \<le> length ?t' + fuel" using Suc.prems(2) by simp
      from Suc.IH[OF lt le] Inr False show ?thesis
        by (simp add: Let_def)
    qed
  qed
qed

lemma run_loop_no_failure:
  "\<forall>a t. \<exists>reply. tt a t = Inr reply \<Longrightarrow> run_loop fuel roster tc tt t i = Some r \<Longrightarrow>
   \<exists>t'. r = Terminated t'"
proof (induction fuel arbitrary: t i)
  case 0
  then show ?case by simp
next
  case (Suc fuel)
  from Suc.prems(1) obtain reply where r: "tt (roster ! i) t = Inr reply" by blast
  with Suc show ?case
    by (auto simp: Let_def split: if_splits)
qed

lemma run_loop_no_mention:
  "\<forall>a t. \<exists>reply. tt a t = Inr reply \<and> \<not> sublist ''Decision Made'' reply \<Longrightarrow>
   length t < 15 \<Longrightarrow> 15 \<le> length t + fuel \<Longrightarrow>
   \<forall>m\<in>set t. \<not> sublist ''Decision Made'' (content m) \<Longrightarrow>
   \<exists>t'. run_loop fuel roster termination_condition tt t i = Some (Terminated t') \<and> length t' = 15"
proof (induction fuel arbitrary: t i)
  case 0
  then show ?case by simp
next
  case (Suc fuel)
  from Suc.prems(1) obtain reply where r: "tt (roster ! i) t = Inr reply"
    and nm: "\<not> sublist ''Decision Made'' reply" by blast
  let ?t' = "t @ [\<lparr>sender = name (roster ! i), content = reply, turn_index = length t\<rparr>]"
  have quiet: "\<forall>m\<in>set ?t'. \<not> sublist ''Decision Made'' (content m)"
    using Suc.prems(4) nm by simp
  show ?case
  proof (cases "length t = 14")
    case True
    then have "should_stop termination_condition ?t'" by (simp add: should_stop_deployed)
    with r True show ?thesis by (simp add: Let_def)
  next
    case False
    with Suc.prems(2) have lt: "length ?t' < 15" by simp
    with quiet have ns: "\<not> should_stop termination_condition ?t'"
      unfolding should_stop_deployed by (meson not_le)
    have le: "15 \<le> length ?t' + fuel" using Suc.prems(3) by simp
    from Suc.IH[OF Suc.prems(1) lt le quiet] r ns show ?thesis
      by (simp add: Let_def)
  qed
qed

lemma run_loop_stops_first:
  "run_loop fuel roster tc tt t i = Some (Terminated t') \<Longrightarrow>
   (\<forall>k. 0 < k \<and> k \<le> length t \<longrightarrow> \<not> should_stop tc (take k t)) \<Longrightarrow>
   should_stop tc t' \<and> (\<forall>k. 0 < k \<and> k < length t' \<longrightarrow> \<not> should_stop tc (take k t'))"
proof (induction fuel arbitrary: t i)
  case 0
  then show ?case by simp
next
  case (Suc fuel)
  show ?case
  proof (cases "tt (roster ! i) t")
    case (Inl e)
    with Suc.prems(1) show ?thesis by simp
  next
    case (Inr reply)
    let ?t' = "t @ [\<lparr>sender = name (roster ! i), content = reply, turn_index = length t\<rparr>]"
    show ?thesis
    proof (cases "should_stop tc ?t'")
      case True
      with Inr Suc.prems(1) have eq: "t' = ?t'" by (simp add: Let_def)
      have "\<not> should_stop tc (take k t')" if "0 < k \<and> k < length t'" for k
      proof -
        from that eq have "k \<le> length t" by simp
        with eq have "take k t' = take k t" by simp
        with Suc.prems(2) that \<open>k \<le> length t\<close> show ?thesis by simp
      qed
      with True eq show ?thesis by blast
    next
      case False
      with Inr Suc.prems(1)
      have run: "run_loop fuel roster tc tt ?t' (Suc i mod length roster) = Some (Terminated t')"
        by (simp add: Let_def)
      have pre: "\<forall>k. 0 < k \<and> k \<le> length ?t' \<longrightarrow> \<not> should_stop tc (take k ?t')"
      proof (intro allI impI)
        fix k assume k: "0 < k \<and> k \<le> length ?t'"
        show "\<not> should_stop tc (take k ?t')"
        proof (cases "k \<le> length t")
          case True
          then have "take k ?t' = take k t" by simp
          with Suc.prems(2) k True show ?thesis by simp
        next
          case False
          with k have "k = length ?t'" by simp
          then have "take k ?t' = ?t'" by simp
          with \<open>\<not> should_stop tc ?t'\<close> show ?thesis by simp
        qed
      qed
      from Suc.IH[OF run pre] show ?thesis .
    qed
  qed
qed

lemma run_loop_round_robin:
  "roster \<noteq> [] \<Longrightarrow> i = length t mod length roster \<Longrightarrow>
   (\<forall>k<length t. sender (t ! k) = name (roster ! (k mod length roster)) \<and> turn_index (t ! k) = k) \<Longrightarrow>
   run_loop fuel roster tc tt t i = Some r \<Longrightarrow>
   \<forall>k<length (transcript_of r).
      sender (transcript_of r ! k) = name (roster ! (k mod length roster))
      \<and> turn_index (transcript_of r ! k) = k"
proof (induction fuel arbitrary: t i)
  case 0
  then show ?case by simp
next
  case (Suc fuel)
  show ?case
  proof (cases "tt (roster ! i) t")
    case (Inl e)
    with Suc.prems show ?thesis by auto
  next
    case (Inr reply)
    let ?m = "\<lparr>sender = name (roster ! i), content = reply, turn_index = length t\<rparr>"
    let ?t' = "t @ [?m]"
    have inv: "\<forall>k<length ?t'. sender (?t' ! k) = name (roster ! (k mod length roster))
                 \<and> turn_index (?t' ! k) = k"
      using Suc.prems(2,3) by (auto simp: nth_append less_Suc_eq)
    have idx: "Suc i mod length roster = length ?t' mod length roster"
      using Suc.prems(2) by (simp add: mod_Suc_eq)
    show ?thesis
    proof (cases "should_stop tc ?t'")
      case True
      with Inr Suc.prems(4) have "r = Terminated ?t'" by (simp add: Let_def)
      with inv show ?thesis by simp
    next
      case False
      with Inr Suc.prems(4)
      have "run_loop fuel roster tc tt ?t' (Suc i mod length roster) = Some r"
        by (simp add: Let_def)
      from Suc.IH[OF Suc.prems(1) idx inv this] show ?thesis .
    qed
  qed
qed

lemma investment_team_fields:
  "participants investment_team \<noteq> []"
  "length (participants investment_team) = 4"
  "termination_of investment_team = termination_condition"
  "map name (participants investment_team) =
     [''stock_trends_agent'', ''news_agent'', ''sentiment_agent'', ''decision_agent'']"
  by (simp_all add: investment_team_def stock_trends_agent_assistant_def
      news_agent_assistant_def sentiment_agent_assistant_def decision_agent_assistant_def)

lemma quiet_run:
  "\<forall>a t. \<exists>reply. be a task t = Inr reply \<and> \<not> sublist ''Decision Made'' reply \<Longrightarrow>
   15 \<le> fuel \<Longrightarrow>
   \<exists>t. run_stream fuel investment_team task be = Some (Terminated t) \<and> length t = 15"
  using run_loop_no_mention[of "\<lambda>a. be a task" "[]" fuel "participants investment_team" 0]
  by (simp add: run_stream_def investment_team_fields)

lemma deployed_run_ends:
  "15 \<le> fuel \<Longrightarrow> \<exists>r. run_stream fuel investment_team task be = Some r"
  using run_loop_capped[of "[]" fuel "participants investment_team" "\<lambda>a. be a task" 0]
  by (simp add: run_stream_def investment_team_fields)

lemma deployed_run_terminates:
  assumes "15 \<le> fuel" and "\<forall>a t. \<exists>reply. be a task t = Inr reply"
  shows "\<exists>t. run_stream fuel investment_team task be = Some (Terminated t)"
proof -
  from deployed_run_ends[OF assms(1)] obtain r where
    r: "run_stream fuel investment_team task be = Some r" by blast
  then have "run_loop fuel (participants investment_team) termination_condition
               (\<lambda>a. be a task) [] 0 = Some r"
    by (simp add: run_stream_def investment_team_fields)
  from run_loop_no_failure[OF _ this] assms(2) obtain t' where "r = Terminated t'" by auto
  with r show ?thesis by simp
qed

lemma quiet_backend_is_quiet:
  "\<forall>a t. \<exists>reply. quiet_backend a task t = Inr reply \<and> \<not> sublist ''Decision Made'' reply"
  by (simp add: quiet_backend_def HOLD_is_quiet)

text \<open>
  C1. The deployed condition is the disjunction of the mention of "Decision Made" and
  the cap of 15 messages. A run of the four-agent team stops as soon as either holds:
  the condition holds of the final transcript and of no shorter non-empty prefix. If
  no agent ever emits "Decision Made" and no turn fails, the run ends with exactly 15
  messages.
\<close>

theorem termination_mention_or_cap:
  "(should_stop termination_condition t \<longleftrightarrow>
      (\<exists>m\<in>set t. sublist ''Decision Made'' (content m)) \<or> 15 \<le> length t)
   \<and> (run_stream fuel investment_team task be = Some (Terminated t') \<longrightarrow>
        should_stop termination_condition t'
        \<and> (\<forall>k. 0 < k \<and> k < length t' \<longrightarrow> \<not> should_stop termination_condition (take k t')))
   \<and> ((\<forall>a u. \<exists>reply. be a task u = Inr reply \<and> \<not> sublist ''Decision Made'' reply) \<longrightarrow>
        15 \<le> fuel \<longrightarrow>
        (\<exists>u. run_stream fuel investment_team task be = Some (Terminated u) \<and> length u = 15))"
proof (intro conjI impI)
  show "should_stop termination_condition t \<longleftrightarrow>
      (\<exists>m\<in>set t. sublist ''Decision Made'' (content m)) \<or> 15 \<le> length t"
    by (rule should_stop_deployed)
next
  assume "run_stream fuel investment_team task be = Some (Terminated t')"
  then have run: "run_loop fuel (participants investment_team) termination_condition
                    (\<lambda>a. be a task) [] 0 = Some (Terminated t')"
    by (simp add: run_stream_def investment_team_fields)
  have "\<forall>k. 0 < k \<and> k \<le> length ([]::message list) \<longrightarrow>
          \<not> should_stop termination_condition (take k [])"
    by simp
  from run_loop_stops_first[OF run this]
  show "should_stop termination_condition t'"
    and "\<forall>k. 0 < k \<and> k < length t' \<longrightarrow> \<not> should_stop termination_condition (take k t')"
    by blast+
next
  assume "\<forall>a u. \<exists>reply. be a task u = Inr reply \<and> \<not> sublist ''Decision Made'' reply"
    and "15 \<le> fuel"
  then show "\<exists>u. run_stream fuel investment_team task be = Some (Terminated u) \<and> length u = 15"
    by (rule quiet_run)
qed

theorem termination_mention_or_cap_witness:
  "(\<forall>a u. \<exists>reply. quiet_backend a (task_for ''ICICIBANK.NS'') u = Inr reply
            \<and> \<not> sublist ''Decision Made'' reply)
   \<and> (\<exists>u. run_stream 15 investment_team (task_for ''ICICIBANK.NS'') quiet_backend
            = Some (Terminated u)
          \<and> length u = 15
          \<and> should_stop termination_condition u
          \<and> \<not> should_stop termination_condition (take 14 u))"
proof -
  let ?task = "task_for ''ICICIBANK.NS''"
  have q: "\<forall>a u. \<exists>reply. quiet_backend a ?task u = Inr reply
            \<and> \<not> sublist ''Decision Made'' reply"
    by (rule quiet_backend_is_quiet)
  have f: "(15::nat) \<le> 15" by simp
  from q f termination_mention_or_cap [of _ 15 ?task quiet_backend]
  obtain u where u: "run_stream 15 investment_team ?task quiet_backend = Some (Terminated u)"
    and len: "length u = 15"
    by blast
  from u termination_mention_or_cap [of _ 15 ?task quiet_backend u]
  have "should_stop termination_condition u"
    and "\<forall>k. 0 < k \<and> k < length u \<longrightarrow> \<not> should_stop termination_condition (take k u)"
    by blast+
  with len have "should_stop termination_condition u"
    and "\<not> should_stop termination_condition (take 14 u)"
    by simp_all
  with q u len show ?thesis by blast
qed

text \<open>
  C2. Within one run of a team with at least one participant, the message of turn
  \<open>k\<close> (counted from 0) is sent by the participant at position \<open>k mod N\<close>, whatever the
  length of the run and whether it ended by its condition or by a failing turn; so
  no agent is skipped or taken out of order within a round. The deployed roster is
  stock_trends_agent, news_agent, sentiment_agent, decision_agent.
\<close>

theorem round_robin_cyclic:
  "map name (participants investment_team) =
     [''stock_trends_agent'', ''news_agent'', ''sentiment_agent'', ''decision_agent'']
   \<and> (participants tm \<noteq> [] \<longrightarrow> run_stream fuel tm task be = Some r \<longrightarrow>
        (\<forall>k<length (transcript_of r).
           sender (transcript_of r ! k) = name (participants tm ! (k mod length (participants tm)))
           \<and> turn_index (transcript_of r ! k) = k))"
proof (intro conjI impI)
  show "map name (participants investment_team) =
     [''stock_trends_agent'', ''news_agent'', ''sentiment_agent'', ''decision_agent'']"
    by (rule investment_team_fields)
next
  assume ne: "participants tm \<noteq> []" and "run_stream fuel tm task be = Some r"
  then have run: "run_loop fuel (participants tm) (termination_of tm) (\<lambda>a. be a task) [] 0 = Some r"
    by (simp add: run_stream_def)
  have i0: "0 = length ([]::message list) mod length (participants tm)" by simp
  have inv0: "\<forall>k<length ([]::message list).
      sender ([] ! k) = name (participants tm ! (k mod length (participants tm)))
      \<and> turn_index ([] ! k) = k"
    by simp
  from run_loop_round_robin[OF ne i0 inv0 run]
  show "\<forall>k<length (transcript_of r).
           sender (transcript_of r ! k) = name (participants tm ! (k mod length (participants tm)))
           \<and> turn_index (transcript_of r ! k) = k" .
qed

theorem round_robin_cyclic_witness:
  "participants investment_team \<noteq> []
   \<and> (\<exists>r. run_stream 15 investment_team (task_for ''ICICIBANK.NS'') quiet_backend = Some r
          \<and> 5 < length (transcript_of r)
          \<and> sender (transcript_of r ! 5) = ''news_agent''
          \<and> sender (transcript_of r ! 11) = ''decision_agent''
          \<and> turn_index (transcript_of r ! 5) = 5)"
proof -
  let ?task = "task_for ''ICICIBANK.NS''"
  have ne: "participants investment_team \<noteq> []"
    by (rule investment_team_fields)
  from quiet_run[of quiet_backend ?task 15] quiet_backend_is_quiet[of ?task]
  obtain u where u: "run_stream 15 investment_team ?task quiet_backend = Some (Terminated u)"
    and len: "length u = 15"
    by auto
  from ne u round_robin_cyclic [of investment_team 15 ?task quiet_backend "Terminated u"]
  have all: "\<forall>k<length u.
      sender (u ! k) = name (participants investment_team ! (k mod length (participants investment_team)))
      \<and> turn_index (u ! k) = k"
    by simp
  have names: "name (participants investment_team ! 1) = ''news_agent''"
    "name (participants investment_team ! 3) = ''decision_agent''"
    by (simp_all add: investment_team_def news_agent_assistant_def decision_agent_assistant_def)
  from all len have "sender (u ! 5) = name (participants investment_team ! (5 mod 4))"
    and "sender (u ! 11) = name (participants investment_team ! (11 mod 4))"
    and "turn_index (u ! 5) = 5"
    by (simp_all add: investment_team_fields)
  with names have "sender (u ! 5) = ''news_agent''" "sender (u ! 11) = ''decision_agent''"
    "turn_index (u ! 5) = 5"
    by simp_all
  with ne u len show ?thesis by simp
qed

section \<open>The main loop\<close>

lemma sleeps_of_append: "sleeps_of (xs @ ys) = sleeps_of xs @ sleeps_of ys"
  by (induction xs rule: sleeps_of.induct) simp_all

lemma rendered_of_append: "rendered_of (xs @ ys) = rendered_of xs @ rendered_of ys"
  by (induction xs rule: rendered_of.induct) simp_all

lemma cycle_body_terminated:
  "run_stream fuel investment_team (task_for s) (model ev (cycle d)) = Some (Terminated t) \<Longrightarrow>
   \<exists>d'. cycle_body ev fuel s iv d = Some (Inr (), d') \<and> cycle d' = Suc (cycle d)
       \<and> sleeps_of (events d') = sleeps_of (events d) @ [iv]
       \<and> rendered_of (events d') = rendered_of (events d) @ [t]"
  by (simp add: cycle_body_def emit_def Let_def sleeps_of_append rendered_of_append)

lemma cycle_body_failed:
  "run_stream fuel investment_team (task_for s) (model ev (cycle d)) = Some (RunFailed e t) \<Longrightarrow>
   \<exists>d'. cycle_body ev fuel s iv d = Some (Inl e, d') \<and> cycle d' = cycle d
       \<and> sleeps_of (events d') = sleeps_of (events d)
       \<and> rendered_of (events d') = rendered_of (events d) @ [t]"
  by (simp add: cycle_body_def emit_def Let_def sleeps_of_append rendered_of_append)

lemma py_while_true_not_returned: "py_while (\<lambda>d. True) body n s \<noteq> Returned s'"
  by (induction n arbitrary: s) (auto split: option.splits sum.splits prod.splits)

lemma loop_good_cycles:
  "(\<forall>c. cycle d \<le> c \<and> c < cycle d + n \<longrightarrow>
      (\<exists>t. run_stream fuel investment_team (task_for s) (model ev c) = Some (Terminated t))) \<Longrightarrow>
   \<exists>d'. py_while (\<lambda>d. True) (cycle_body ev fuel s iv) n d = StillRunning d'
       \<and> cycle d' = cycle d + n
       \<and> sleeps_of (events d') = sleeps_of (events d) @ replicate n iv
       \<and> length (rendered_of (events d')) = length (rendered_of (events d)) + n"
proof (induction n arbitrary: d)
  case 0
  then show ?case by simp
next
  case (Suc n)
  from Suc.prems obtain t where
    "run_stream fuel investment_team (task_for s) (model ev (cycle d)) = Some (Terminated t)"
    by (meson le_refl less_add_Suc2 less_add_same_cancel1 zero_less_Suc)
  from cycle_body_terminated[OF this, of iv] obtain d1 where
    b: "cycle_body ev fuel s iv d = Some (Inr (), d1)" and c1: "cycle d1 = Suc (cycle d)"
    and s1: "sleeps_of (events d1) = sleeps_of (events d) @ [iv]"
    and r1: "rendered_of (events d1) = rendered_of (events d) @ [t]" by blast
  have "\<forall>c. cycle d1 \<le> c \<and> c < cycle d1 + n \<longrightarrow>
      (\<exists>t. run_stream fuel investment_team (task_for s) (model ev c) = Some (Terminated t))"
    using Suc.prems c1 by simp
  from Suc.IH[OF this] obtain d' where
    "py_while (\<lambda>d. True) (cycle_body ev fuel s iv) n d1 = StillRunning d'"
    "cycle d' = cycle d1 + n"
    "sleeps_of (events d') = sleeps_of (events d1) @ replicate n iv"
    "length (rendered_of (events d')) = length (rendered_of (events d1)) + n" by blast
  with b c1 s1 r1 show ?case by (simp add: replicate_append_same)
qed

lemma loop_failing_cycle:
  "(\<forall>c. cycle d \<le> c \<and> c < cycle d + k \<longrightarrow>
      (\<exists>t. run_stream fuel investment_team (task_for s) (model ev c) = Some (Terminated t))) \<Longrightarrow>
   run_stream fuel investment_team (task_for s) (model ev (cycle d + k)) = Some (RunFailed e t) \<Longrightarrow>
   k < n \<Longrightarrow>
   \<exists>d'. py_while (\<lambda>d. True) (cycle_body ev fuel s iv) n d = Raised e d'
       \<and> cycle d' = cycle d + k
       \<and> sleeps_of (events d') = sleeps_of (events d) @ replicate k iv
       \<and> length (rendered_of (events d')) = length (rendered_of (events d)) + Suc k
       \<and> last (rendered_of (events d')) = t"
proof (induction k arbitrary: d n)
  case 0
  then obtain n' where n: "n = Suc n'" by (cases n) auto
  from 0 have "run_stream fuel investment_team (task_for s) (model ev (cycle d)) = Some (RunFailed e t)"
    by simp
  from cycle_body_failed[OF this, of iv] n show ?case by auto
next
  case (Suc k)
  then obtain n' where n: "n = Suc n'" and kn: "k < n'" by (cases n) auto
  from Suc.prems(1) obtain u where
    "run_stream fuel investment_team (task_for s) (model ev (cycle d)) = Some (Terminated u)"
    by (meson le_refl less_add_Suc2 less_add_same_cancel1 zero_less_Suc)
  from cycle_body_terminated[OF this, of iv] obtain d1 where
    b: "cycle_body ev fuel s iv d = Some (Inr (), d1)" and c1: "cycle d1 = Suc (cycle d)"
    and s1: "sleeps_of (events d1) = sleeps_of (events d) @ [iv]"
    and r1: "rendered_of (events d1) = rendered_of (events d) @ [u]" by blast
  have good: "\<forall>c. cycle d1 \<le> c \<and> c < cycle d1 + k \<longrightarrow>
      (\<exists>t. run_stream fuel investment_team (task_for s) (model ev c) = Some (Terminated t))"
    using Suc.prems(1) c1 by simp
  have bad: "run_stream fuel investment_team (task_for s) (model ev (cycle d1 + k)) = Some (RunFailed e t)"
    using Suc.prems(2) c1 by simp
  from Suc.IH[OF good bad kn] obtain d' where
    "py_while (\<lambda>d. True) (cycle_body ev fuel s iv) n' d1 = Raised e d'"
    "cycle d' = cycle d1 + k"
    "sleeps_of (events d') = sleeps_of (events d1) @ replicate k iv"
    "length (rendered_of (events d')) = length (rendered_of (events d1)) + Suc k"
    "last (rendered_of (events d')) = t" by blast
  with b c1 s1 r1 n show ?case by (simp add: replicate_append_same)
qed

lemma cycle_events_explicit:
  "cycle_events ev fuel s iv =
     (\<lambda>c. [Printed ([CHR 0x0A] @ ''['' @ now ev c
                   @ ''] Running real-time round-robin analysis...'' @ [CHR 0x0A]),
           Rendered (transcript_of (the (run_stream fuel investment_team
             (''Analyze trends, real-time prices, and latest news for '' @ s
              @ ''. Then make an investment decision.'') (model ev c)))),
           Printed ([CHR 0x0A] @ ''Waiting '' @ str_int iv
                   @ '' seconds before next update...'' @ [CHR 0x0A]),
           Slept iv])"
  by (rule ext) (simp add: cycle_events_def task_for_def)

lemma cycle_body_terminated_events:
  "run_stream fuel investment_team (task_for s) (model ev (cycle d)) = Some (Terminated t) \<Longrightarrow>
   cycle_body ev fuel s iv d =
     Some (Inr (), \<lparr>events = events d @ cycle_events ev fuel s iv (cycle d),
                    cycle = Suc (cycle d)\<rparr>)"
  by (simp add: cycle_body_def emit_def Let_def cycle_events_def)

lemma cycle_body_failed_events:
  "run_stream fuel investment_team (task_for s) (model ev (cycle d)) = Some (RunFailed e t) \<Longrightarrow>
   cycle_body ev fuel s iv d =
     Some (Inl e, \<lparr>events = events d
                     @ [Printed ([CHR 0x0A] @ ''['' @ now ev (cycle d)
                                 @ ''] Running real-time round-robin analysis...''
                                 @ [CHR 0x0A]),
                        Rendered t],
                   cycle = cycle d\<rparr>)"
  by (simp add: cycle_body_def emit_def Let_def)

lemma loop_trace_good:
  "(\<forall>c. cycle d \<le> c \<and> c < cycle d + n \<longrightarrow>
      (\<exists>t. run_stream fuel investment_team (task_for s) (model ev c) = Some (Terminated t))) \<Longrightarrow>
   py_while (\<lambda>d. True) (cycle_body ev fuel s iv) n d =
     StillRunning \<lparr>events = events d
                      @ concat (map (cycle_events ev fuel s iv) [cycle d..<cycle d + n]),
                    cycle = cycle d + n\<rparr>"
proof (induction n arbitrary: d)
  case 0
  then show ?case by simp
next
  case (Suc n)
  from Suc.prems obtain t where
    "run_stream fuel investment_team (task_for s) (model ev (cycle d)) = Some (Terminated t)"
    by (meson le_refl less_add_Suc2 less_add_same_cancel1 zero_less_Suc)
  from cycle_body_terminated_events[OF this, of iv]
  have b: "cycle_body ev fuel s iv d =
     Some (Inr (), \<lparr>events = events d @ cycle_events ev fuel s iv (cycle d),
                    cycle = Suc (cycle d)\<rparr>)" .
  let ?d1 = "\<lparr>events = events d @ cycle_events ev fuel s iv (cycle d), cycle = Suc (cycle d)\<rparr>"
  have good: "\<forall>c. cycle ?d1 \<le> c \<and> c < cycle ?d1 + n \<longrightarrow>
      (\<exists>t. run_stream fuel investment_team (task_for s) (model ev c) = Some (Terminated t))"
    using Suc.prems by simp
  have u: "[cycle d..<Suc (cycle d + n)] = cycle d # [Suc (cycle d)..<Suc (cycle d + n)]"
    by (rule upt_conv_Cons) simp
  from Suc.IH[OF good] b show ?case
    by (simp add: u del: upt_Suc)
qed

lemma loop_trace_failing:
  "(\<forall>c. cycle d \<le> c \<and> c < cycle d + k \<longrightarrow>
      (\<exists>t. run_stream fuel investment_team (task_for s) (model ev c) = Some (Terminated t))) \<Longrightarrow>
   run_stream fuel investment_team (task_for s) (model ev (cycle d + k)) = Some (RunFailed e t) \<Longrightarrow>
   k < n \<Longrightarrow>
   py_while (\<lambda>d. True) (cycle_body ev fuel s iv) n d =
     Raised e \<lparr>events = events d
                  @ concat (map (cycle_events ev fuel s iv) [cycle d..<cycle d + k])
                  @ [Printed ([CHR 0x0A] @ ''['' @ now ev (cycle d + k)
                              @ ''] Running real-time round-robin analysis...''
                              @ [CHR 0x0A]),
                     Rendered t],
                cycle = cycle d + k\<rparr>"
proof (induction k arbitrary: d n)
  case 0
  then obtain n' where n: "n = Suc n'" by (cases n) auto
  from 0 have "run_stream fuel investment_team (task_for s) (model ev (cycle d)) = Some (RunFailed e t)"
    by simp
  from cycle_body_failed_events[OF this, of iv] n show ?case by simp
next
  case (Suc k)
  then obtain n' where n: "n = Suc n'" and kn: "k < n'" by (cases n) auto
  from Suc.prems(1) obtain u where
    "run_stream fuel investment_team (task_for s) (model ev (cycle d)) = Some (Terminated u)"
    by (meson le_refl less_add_Suc2 less_add_same_cancel1 zero_less_Suc)
  from cycle_body_terminated_events[OF this, of iv]
  have b: "cycle_body ev fuel s iv d =
     Some (Inr (), \<lparr>events = events d @ cycle_events ev fuel s iv (cycle d),
                    cycle = Suc (cycle d)\<rparr>)" .
  let ?d1 = "\<lparr>events = events d @ cycle_events ev fuel s iv (cycle d), cycle = Suc (cycle d)\<rparr>"
  have good: "\<forall>c. cycle ?d1 \<le> c \<and> c < cycle ?d1 + k \<longrightarrow>
      (\<exists>t. run_stream fuel investment_team (task_for s) (model ev c) = Some (Terminated t))"
    using Suc.prems(1) by simp
  have bad: "run_stream fuel investment_team (task_for s) (model ev (cycle ?d1 + k))
               = Some (RunFailed e t)"
    using Suc.prems(2) by simp
  have u: "[cycle d..<Suc (cycle d + k)] = cycle d # [Suc (cycle d)..<Suc (cycle d + k)]"
    by (rule upt_conv_Cons) simp
  from Suc.IH[OF good bad kn] b n show ?case
    by (simp add: u del: upt_Suc)
qed

text \<open>
  C5, as stated, fails: \<open>run_realtime_analysis\<close> has no exception handler. With the
  model backend failing on the second turn of the first cycle, the driver ends with
  that error: it never sleeps and starts no second run, however long it is observed.
\<close>

theorem outage_stops_driver:
  "is_raised (main outage_env 15 2)
   \<and> cycle (state_of (main outage_env 15 2)) = 0
   \<and> sleeps_of (events (state_of (main outage_env 15 2))) = []
   \<and> rendered_of (events (state_of (main outage_env 15 2)))
       = [[\<lparr>sender = ''stock_trends_agent'', content = ''noted'', turn_index = 0\<rparr>]]"
  by code_simp

text \<open>
  C5, amended. If an agent turn fails, the run of the current cycle is aborted and
  reported as failed, and the error leaves the driver loop, which nothing guards: the
  driver stops with that error in the cycle of the failure, having slept once after
  each earlier, completed cycle and not after the failed one, and it starts no
  further run.
\<close>

theorem failed_run_leaves_loop:
  "(\<forall>c<k. \<exists>u. run_stream fuel investment_team (task_for s) (model ev c) = Some (Terminated u)) \<Longrightarrow>
   run_stream fuel investment_team (task_for s) (model ev k) = Some (RunFailed e t) \<Longrightarrow>
   k < n \<Longrightarrow>
   \<exists>d. run_realtime_analysis ev fuel s iv n = Raised e d
      \<and> cycle d = k
      \<and> sleeps_of (events d) = replicate k iv
      \<and> length (rendered_of (events d)) = Suc k
      \<and> last (rendered_of (events d)) = t"
  using loop_failing_cycle[of "\<lparr>events = [], cycle = 0\<rparr>" k fuel s ev e t n iv]
  by (simp add: run_realtime_analysis_def)

theorem failed_run_leaves_loop_witness:
  "run_stream 15 investment_team (task_for ''ICICIBANK.NS'') (model late_outage_env 0)
       = Some (Terminated decided_transcript)
   \<and> run_stream 15 investment_team (task_for ''ICICIBANK.NS'') (model late_outage_env 1)
       = Some (RunFailed BackendUnavailable
            [\<lparr>sender = ''stock_trends_agent'', content = ''noted'', turn_index = 0\<rparr>])
   \<and> (\<exists>d. run_realtime_analysis late_outage_env 15 ''ICICIBANK.NS'' 60 5
            = Raised BackendUnavailable d
          \<and> cycle d = 1
          \<and> sleeps_of (events d) = [60]
          \<and> length (rendered_of (events d)) = 2)"
proof -
  let ?task = "task_for ''ICICIBANK.NS''"
  let ?partial = "[\<lparr>sender = ''stock_trends_agent'', content = ''noted'', turn_index = 0\<rparr>]"
  have r0: "run_stream 15 investment_team ?task (model late_outage_env 0)
              = Some (Terminated decided_transcript)"
    by code_simp
  have good: "\<forall>c<1. \<exists>u. run_stream 15 investment_team ?task (model late_outage_env c)
              = Some (Terminated u)"
    using r0 by simp
  have bad: "run_stream 15 investment_team ?task (model late_outage_env 1)
              = Some (RunFailed BackendUnavailable ?partial)"
    by code_simp
  have lt: "(1::nat) < 5" by simp
  from failed_run_leaves_loop [OF good bad lt, of 60]
  have "\<exists>d. run_realtime_analysis late_outage_env 15 ''ICICIBANK.NS'' 60 5
            = Raised BackendUnavailable d
          \<and> cycle d = 1
          \<and> sleeps_of (events d) = [60]
          \<and> length (rendered_of (events d)) = 2"
    by (auto simp: numeral_2_eq_2)
  with r0 bad show ?thesis by blast
qed

text \<open>
  C9, as stated, fails: the loop does end on its own. With the model backend failing
  in the second cycle, the driver is gone after one sleep, although it was observed
  for five iterations and nobody stopped it.
\<close>

theorem main_loop_ends_on_failure:
  "is_raised (main late_outage_env 15 5)
   \<and> cycle (state_of (main late_outage_env 15 5)) = 1
   \<and> sleeps_of (events (state_of (main late_outage_env 15 5))) = [60]
   \<and> length (rendered_of (events (state_of (main late_outage_env 15 5)))) = 2"
  by code_simp

text \<open>
  C9, amended. The Real-Time Driver loop never returns. As long as no agent turn
  fails, every iteration announces itself, runs one conversation run to its
  termination, prints the waiting line and then sleeps the fixed interval, in this
  order and for any number of iterations; \<open>main\<close> runs the loop for ICICIBANK.NS with
  the positive interval of 60 seconds, which is also the default of the parameter. A
  conversation run that fails ends the loop at once with its error, after the
  announcement and the partial transcript and without a sleep.
\<close>

theorem driver_loop_trace:
  "(\<forall>d. run_realtime_analysis ev fuel s iv n \<noteq> Returned d)
   \<and> (15 \<le> fuel \<longrightarrow>
        (\<forall>c<n. \<forall>a t. \<exists>reply.
           model ev c a (''Analyze trends, real-time prices, and latest news for '' @ s
                         @ ''. Then make an investment decision.'') t = Inr reply) \<longrightarrow>
        (\<forall>c<n. \<exists>t. run_stream fuel investment_team
           (''Analyze trends, real-time prices, and latest news for '' @ s
            @ ''. Then make an investment decision.'') (model ev c) = Some (Terminated t))
        \<and> run_realtime_analysis ev fuel s iv n =
            StillRunning
              \<lparr>events = concat (map
                 (\<lambda>c. [Printed ([CHR 0x0A] @ ''['' @ now ev c
                                 @ ''] Running real-time round-robin analysis...''
                                 @ [CHR 0x0A]),
                       Rendered (transcript_of (the (run_stream fuel investment_team
                         (''Analyze trends, real-time prices, and latest news for '' @ s
                          @ ''. Then make an investment decision.'') (model ev c)))),
                       Printed ([CHR 0x0A] @ ''Waiting '' @ str_int iv
                                 @ '' seconds before next update...'' @ [CHR 0x0A]),
                       Slept iv]) [0..<n]),
               cycle = n\<rparr>)
   \<and> ((\<forall>c<k. \<exists>u. run_stream fuel investment_team
           (''Analyze trends, real-time prices, and latest news for '' @ s
            @ ''. Then make an investment decision.'') (model ev c) = Some (Terminated u)) \<longrightarrow>
        run_stream fuel investment_team
           (''Analyze trends, real-time prices, and latest news for '' @ s
            @ ''. Then make an investment decision.'') (model ev k) = Some (RunFailed e t') \<longrightarrow>
        k < n \<longrightarrow>
        run_realtime_analysis ev fuel s iv n =
          Raised e
            \<lparr>events = concat (map
               (\<lambda>c. [Printed ([CHR 0x0A] @ ''['' @ now ev c
                               @ ''] Running real-time round-robin analysis...''
                               @ [CHR 0x0A]),
                     Rendered (transcript_of (the (run_stream fuel investment_team
                       (''Analyze trends, real-time prices, and latest news for '' @ s
                        @ ''. Then make an investment decision.'') (model ev c)))),
                     Printed ([CHR 0x0A] @ ''Waiting '' @ str_int iv
                               @ '' seconds before next update...'' @ [CHR 0x0A]),
                     Slept iv]) [0..<k])
               @ [Printed ([CHR 0x0A] @ ''['' @ now ev k
                           @ ''] Running real-time round-robin analysis...'' @ [CHR 0x0A]),
                  Rendered t'],
             cycle = k\<rparr>)
   \<and> main ev fuel n = run_realtime_analysis ev fuel ''ICICIBANK.NS'' 60 n
   \<and> str_int 60 = ''60''
   \<and> default_interval = 60
   \<and> (0::int) < default_interval"
proof -
  let ?task = "''Analyze trends, real-time prices, and latest news for '' @ s
               @ ''. Then make an investment decision.''"
  let ?d0 = "\<lparr>events = [], cycle = 0\<rparr>"
  have task: "task_for s = ?task"
    by (simp add: task_for_def)
  have never: "\<forall>d. run_realtime_analysis ev fuel s iv n \<noteq> Returned d"
    by (simp add: run_realtime_analysis_def py_while_true_not_returned)
  have running: "(\<forall>c<n. \<exists>t. run_stream fuel investment_team ?task (model ev c) = Some (Terminated t))
        \<and> run_realtime_analysis ev fuel s iv n =
            StillRunning \<lparr>events = concat (map (cycle_events ev fuel s iv) [0..<n]), cycle = n\<rparr>"
    if fuel: "15 \<le> fuel"
      and ok: "\<forall>c<n. \<forall>a t. \<exists>reply. model ev c a ?task t = Inr reply"
  proof -
    have runs: "\<forall>c<n. \<exists>t. run_stream fuel investment_team ?task (model ev c) = Some (Terminated t)"
      using deployed_run_terminates[OF fuel] ok by simp
    then have "\<forall>c. cycle ?d0 \<le> c \<and> c < cycle ?d0 + n \<longrightarrow>
        (\<exists>t. run_stream fuel investment_team (task_for s) (model ev c) = Some (Terminated t))"
      by (simp add: task)
    from loop_trace_good[OF this, of iv] runs show ?thesis
      by (simp add: run_realtime_analysis_def)
  qed
  have failing: "run_realtime_analysis ev fuel s iv n =
          Raised e \<lparr>events = concat (map (cycle_events ev fuel s iv) [0..<k])
               @ [Printed ([CHR 0x0A] @ ''['' @ now ev k
                           @ ''] Running real-time round-robin analysis...'' @ [CHR 0x0A]),
                  Rendered t'],
             cycle = k\<rparr>"
    if good: "\<forall>c<k. \<exists>u. run_stream fuel investment_team ?task (model ev c) = Some (Terminated u)"
      and bad: "run_stream fuel investment_team ?task (model ev k) = Some (RunFailed e t')"
      and kn: "k < n"
  proof -
    from good have g: "\<forall>c. cycle ?d0 \<le> c \<and> c < cycle ?d0 + k \<longrightarrow>
        (\<exists>t. run_stream fuel investment_team (task_for s) (model ev c) = Some (Terminated t))"
      by (simp add: task)
    from bad have b: "run_stream fuel investment_team (task_for s) (model ev (cycle ?d0 + k))
        = Some (RunFailed e t')"
      by (simp add: task)
    from loop_trace_failing[OF g b kn, of iv] show ?thesis
      by (simp add: run_realtime_analysis_def)
  qed
  have sixty: "str_int 60 = ''60''"
    by code_simp
  from never running failing sixty show ?thesis
    unfolding cycle_events_explicit
    by (simp add: main_def default_interval_def)
qed

theorem driver_loop_trace_witness:
  "(15::nat) \<le> 15
   \<and> (\<forall>c a t. \<exists>reply.
         model steady_env c a
           ''Analyze trends, real-time prices, and latest news for ICICIBANK.NS. Then make an investment decision.''
           t = Inr reply)
   \<and> main steady_env 15 2 =
       StillRunning
         \<lparr>events =
            [Printed ([CHR 0x0A] @ ''[09:15:00] Running real-time round-robin analysis...''
                      @ [CHR 0x0A]),
             Rendered decided_transcript,
             Printed ([CHR 0x0A] @ ''Waiting 60 seconds before next update...'' @ [CHR 0x0A]),
             Slept 60,
             Printed ([CHR 0x0A] @ ''[09:15:00] Running real-time round-robin analysis...''
                      @ [CHR 0x0A]),
             Rendered decided_transcript,
             Printed ([CHR 0x0A] @ ''Waiting 60 seconds before next update...'' @ [CHR 0x0A]),
             Slept 60],
          cycle = 2\<rparr>
   \<and> run_stream 15 investment_team
         ''Analyze trends, real-time prices, and latest news for ICICIBANK.NS. Then make an investment decision.''
         (model late_outage_env 0) = Some (Terminated decided_transcript)
   \<and> run_stream 15 investment_team
         ''Analyze trends, real-time prices, and latest news for ICICIBANK.NS. Then make an investment decision.''
         (model late_outage_env 1)
       = Some (RunFailed BackendUnavailable
            [\<lparr>sender = ''stock_trends_agent'', content = ''noted'', turn_index = 0\<rparr>])
   \<and> main late_outage_env 15 5 =
       Raised BackendUnavailable
         \<lparr>events =
            [Printed ([CHR 0x0A] @ ''[09:15:00] Running real-time round-robin analysis...''
                      @ [CHR 0x0A]),
             Rendered decided_transcript,
             Printed ([CHR 0x0A] @ ''Waiting 60 seconds before next update...'' @ [CHR 0x0A]),
             Slept 60,
             Printed ([CHR 0x0A] @ ''[09:15:00] Running real-time round-robin analysis...''
                      @ [CHR 0x0A]),
             Rendered [\<lparr>sender = ''stock_trends_agent'', content = ''noted'', turn_index = 0\<rparr>]],
          cycle = 1\<rparr>"
proof -
  let ?task = "''Analyze trends, real-time prices, and latest news for ICICIBANK.NS. Then make an investment decision.''"
  let ?partial = "[\<lparr>sender = ''stock_trends_agent'', content = ''noted'', turn_index = 0\<rparr>]"
  have f: "(15::nat) \<le> 15" by simp
  have ok: "\<forall>c a t. \<exists>reply. model steady_env c a ?task t = Inr reply"
    by (simp add: steady_env_def deciding_backend_def)
  have app: "''Analyze trends, real-time prices, and latest news for '' @ ''ICICIBANK.NS''
               @ ''. Then make an investment decision.'' = ?task"
    by simp
  have steady: "run_stream 15 investment_team ?task (model steady_env c)
                  = Some (Terminated decided_transcript)" for c
  proof -
    have "run_stream 15 investment_team ?task deciding_backend
            = Some (Terminated decided_transcript)"
      by code_simp
    then show ?thesis by (simp add: steady_env_def)
  qed
  have r0: "run_stream 15 investment_team ?task (model late_outage_env 0)
              = Some (Terminated decided_transcript)"
    by code_simp
  have r1: "run_stream 15 investment_team ?task (model late_outage_env 1)
              = Some (RunFailed BackendUnavailable ?partial)"
    by code_simp
  have now1: "now steady_env c = ''09:15:00''" "now late_outage_env c = ''09:15:00''" for c
    by (simp_all add: steady_env_def late_outage_env_def)
  have two: "[0..<2] = [0, Suc 0]" and one: "[0..<1] = [0]"
    by (simp_all add: upt_rec)
  note thm_steady = driver_loop_trace
    [of steady_env 15 "''ICICIBANK.NS''" 60 2 0 BackendUnavailable "[]", unfolded app]
  from f ok thm_steady
  have a: "main steady_env 15 2 =
      StillRunning
        \<lparr>events = concat (map
           (\<lambda>c. [Printed ([CHR 0x0A] @ ''['' @ now steady_env c
                           @ ''] Running real-time round-robin analysis...'' @ [CHR 0x0A]),
                 Rendered (transcript_of (the (run_stream 15 investment_team ?task
                   (model steady_env c)))),
                 Printed ([CHR 0x0A] @ ''Waiting '' @ str_int 60
                           @ '' seconds before next update...'' @ [CHR 0x0A]),
                 Slept 60]) [0..<2]),
         cycle = 2\<rparr>"
    and sixty: "str_int 60 = ''60''"
    by auto
  have good: "\<forall>c<1. \<exists>u. run_stream 15 investment_team ?task (model late_outage_env c)
                = Some (Terminated u)"
    using r0 by simp
  note thm_outage = driver_loop_trace
    [of late_outage_env 15 "''ICICIBANK.NS''" 60 5 1 BackendUnavailable ?partial, unfolded app]
  from good r1 thm_outage
  have b: "main late_outage_env 15 5 =
      Raised BackendUnavailable
        \<lparr>events = concat (map
           (\<lambda>c. [Printed ([CHR 0x0A] @ ''['' @ now late_outage_env c
                           @ ''] Running real-time round-robin analysis...'' @ [CHR 0x0A]),
                 Rendered (transcript_of (the (run_stream 15 investment_team ?task
                   (model late_outage_env c)))),
                 Printed ([CHR 0x0A] @ ''Waiting '' @ str_int 60
                           @ '' seconds before next update...'' @ [CHR 0x0A]),
                 Slept 60]) [0..<1])
           @ [Printed ([CHR 0x0A] @ ''['' @ now late_outage_env 1
                       @ ''] Running real-time round-robin analysis...'' @ [CHR 0x0A]),
              Rendered ?partial],
         cycle = 1\<rparr>"
    by auto
  have a': "main steady_env 15 2 =
       StillRunning
         \<lparr>events =
            [Printed ([CHR 0x0A] @ ''[09:15:00] Running real-time round-robin analysis...''
                      @ [CHR 0x0A]),
             Rendered decided_transcript,
             Printed ([CHR 0x0A] @ ''Waiting 60 seconds before next update...'' @ [CHR 0x0A]),
             Slept 60,
             Printed ([CHR 0x0A] @ ''[09:15:00] Running real-time round-robin analysis...''
                      @ [CHR 0x0A]),
             Rendered decided_transcript,
             Printed ([CHR 0x0A] @ ''Waiting 60 seconds before next update...'' @ [CHR 0x0A]),
             Slept 60],
          cycle = 2\<rparr>"
    unfolding a two by (simp add: steady now1 sixty)
  have b': "main late_outage_env 15 5 =
       Raised BackendUnavailable
         \<lparr>events =
            [Printed ([CHR 0x0A] @ ''[09:15:00] Running real-time round-robin analysis...''
                      @ [CHR 0x0A]),
             Rendered decided_transcript,
             Printed ([CHR 0x0A] @ ''Waiting 60 seconds before next update...'' @ [CHR 0x0A]),
             Slept 60,
             Printed ([CHR 0x0A] @ ''[09:15:00] Running real-time round-robin analysis...''
                      @ [CHR 0x0A]),
             Rendered ?partial],
          cycle = 1\<rparr>"
    unfolding b one by (simp add: r0 now1 sixty)
  from f ok a' r0 r1 b' show ?thesis
    by blast
qed

end
